theory Spec2Isabelle
  imports Main
begin

section \<open>Python values and exceptions\<close>

text \<open>
  An exception is a value. \<open>TypeError\<close> and \<open>ValueError\<close> carry the message of the
  \<^verbatim>\<open>raise\<close> statement as the source writes it, with the interpolated parts left as
  their placeholders; the message tells the raising statement apart. \<open>IndexError\<close> is what
  list indexing raises out of range, \<open>KeyError\<close> what a dict lookup raises on a missing key,
  \<open>AttributeError\<close> what a method call on an object without that method raises.
  \<open>OtherError c\<close> is an exception of any other class \<open>c\<close>, raised by a collaborator.
\<close>

datatype py_error =
    TypeError string
  | ValueError string
  | IndexError
  | KeyError
  | AttributeError
  | OtherError string

fun type_classified :: "py_error + 'a \<Rightarrow> bool" where
  "type_classified (Inl (TypeError m)) = True"
| "type_classified r = False"

fun value_classified :: "py_error + 'a \<Rightarrow> bool" where
  "value_classified (Inl (ValueError m)) = True"
| "value_classified r = False"

text \<open>
  The \<^verbatim>\<open>batch_size\<close> argument is any Python object: an \<^verbatim>\<open>int\<close>, a \<^verbatim>\<open>bool\<close>
  (a subclass of \<^verbatim>\<open>int\<close>, with \<^verbatim>\<open>True == 1\<close> and \<^verbatim>\<open>False == 0\<close>), or an object of
  another type, given by its type name.
\<close>

datatype py_value = PyInt int | PyBool bool | PyOther string

fun isinstance_int :: "py_value \<Rightarrow> bool" where
  "isinstance_int (PyInt n) = True"
| "isinstance_int (PyBool b) = True"
| "isinstance_int (PyOther t) = False"

text \<open>
  The integer that a comparison such as \<^verbatim>\<open>batch_size <= 0\<close> reads; it is read only after
  \<^verbatim>\<open>isinstance(batch_size, int)\<close> has held.
\<close>

fun int_value :: "py_value \<Rightarrow> int" where
  "int_value (PyInt n) = n"
| "int_value (PyBool b) = (if b then 1 else 0)"
| "int_value (PyOther t) = 0"

text \<open>
  Modelled from the spec: the test \<^verbatim>\<open>is_real_iterable\<close> of \<^verbatim>\<open>stellargraph.core.utils\<close>,
  by which \<^verbatim>\<open>flow\<close> validates that the targets are iterable. The \<^verbatim>\<open>targets\<close> argument
  is \<^verbatim>\<open>None\<close>, a sized iterable of rows (a list or an array), which passes the test, or an
  object that fails it (a number, a string), given by its type name.
\<close>

datatype 't py_targets = PyNone | RealIterable "'t list" | NotRealIterable string

text \<open>
  Indexing a Python list with an integer: a negative index counts from the end, an index
  outside \<open>-len .. len-1\<close> raises \<^verbatim>\<open>IndexError\<close>.
\<close>

definition valid_iloc :: "'a list \<Rightarrow> int \<Rightarrow> bool" where
  "valid_iloc xs i = (- int (length xs) \<le> i \<and> i < int (length xs))"

definition iloc_pos :: "'a list \<Rightarrow> int \<Rightarrow> nat" where
  "iloc_pos xs i = (if i < 0 then nat (int (length xs) + i) else nat i)"

definition py_getitem :: "'a list \<Rightarrow> int \<Rightarrow> py_error + 'a" where
  "py_getitem xs i = (if valid_iloc xs i then Inr (xs ! iloc_pos xs i) else Inl IndexError)"

section \<open>The graph collaborator\<close>

text \<open>
  The class \<^verbatim>\<open>StellarGraph\<close> lives in \<^verbatim>\<open>stellargraph.core.graph\<close>. The generators use
  it through five calls only, and a graph object is modelled by what these calls give:
  \<^item> \<open>node_types\<close>: the property \<^verbatim>\<open>graph.node_types\<close>, the node types of the graph;
  \<^item> \<open>node_feature_sizes\<close>: the dict \<^verbatim>\<open>graph.node_feature_sizes()\<close>, from node type
    to feature dimensionality;
  \<^item> \<open>node_features_shape1\<close>: the outcome of
    \<^verbatim>\<open>graph.node_features(graph.nodes()).shape[1]\<close>, the number of columns of the feature
    matrix of all nodes, or the exception that the retrieval raises;
  \<^item> \<open>check_graph_for_ml\<close>: the outcome of \<^verbatim>\<open>graph.check_graph_for_ml()\<close>, \<open>None\<close>
    when the check returns and \<open>Some e\<close> when it raises \<open>e\<close>;
  \<^item> \<open>unique_node_type\<close>, defined below from \<open>node_types\<close>.
\<close>

record StellarGraph =
  node_types :: "string list"
  node_feature_sizes :: "string \<rightharpoonup> int"
  node_features_shape1 :: "py_error + int"
  check_graph_for_ml :: "py_error option"

text \<open>
  Modelled from the spec: the method \<^verbatim>\<open>StellarGraph.unique_node_type(error_message)\<close>,
  the single-node-type assertion helper of the graph data type. It returns the node type of
  a graph that has exactly one, and raises a value-classified error with the caller's
  message otherwise.
\<close>

definition unique_node_type :: "StellarGraph \<Rightarrow> string \<Rightarrow> py_error + string" where
  "unique_node_type graph error_message =
     (case node_types graph of
        [t] \<Rightarrow> Inr t
      | _ \<Rightarrow> Inl (ValueError error_message))"

text \<open>
  An element of the list \<^verbatim>\<open>graphs\<close> is any Python object: a \<^verbatim>\<open>StellarGraph\<close>, or an
  object of another class, given by its type name.
\<close>

datatype py_object = Graph StellarGraph | Object string

fun isinstance_StellarGraph :: "py_object \<Rightarrow> bool" where
  "isinstance_StellarGraph (Graph g) = True"
| "isinstance_StellarGraph (Object t) = False"

text \<open>Method calls on an element; an object of another class has none of the methods.\<close>

fun call_node_features_shape1 :: "py_object \<Rightarrow> py_error + int" where
  "call_node_features_shape1 (Graph g) = node_features_shape1 g"
| "call_node_features_shape1 (Object t) = Inl AttributeError"

fun call_check_graph_for_ml :: "py_object \<Rightarrow> py_error option" where
  "call_check_graph_for_ml (Graph g) = check_graph_for_ml g"
| "call_check_graph_for_ml (Object t) = Some AttributeError"

fun call_len_node_types :: "py_object \<Rightarrow> py_error + nat" where
  "call_len_node_types (Graph g) = Inr (length (node_types g))"
| "call_len_node_types (Object t) = Inl AttributeError"

section \<open>The sequence collaborators\<close>

text \<open>
  Modelled from the spec: the constructors \<^verbatim>\<open>GraphSequence\<close> and
  \<^verbatim>\<open>PaddedGraphSequence\<close> of \<^verbatim>\<open>stellargraph.mapper.sequences\<close>. The spec describes a
  sequence constructor accepting the selected graphs, optional targets, batch size, name,
  and for the padded variant normalization mode, shuffle flag and seed, whose result is a
  configured instance of the sequence type: a record of the arguments.
\<close>

record 't GraphSequence =
  graphs :: "py_object list"
  targets :: "'t py_targets"
  batch_size :: py_value
  name :: "string option"

record 't PaddedGraphSequence =
  graphs :: "py_object list"
  targets :: "'t py_targets"
  symmetric_normalization :: bool
  batch_size :: py_value
  name :: "string option"
  shuffle :: bool
  seed :: "int option"

section \<open>graph_generator.py\<close>

record GraphGenerator =
  graphs :: "py_object list"
  node_features_size :: int
  name :: "string option"

text \<open>
  The messages of the \<^verbatim>\<open>raise\<close> statements; \<^verbatim>\<open>{}\<close> stands for the class name that
  \<^verbatim>\<open>format\<close> fills in.
\<close>

abbreviation msg_graph_type :: string where
  "msg_graph_type \<equiv>
     ''All graphs must be a StellarGraph or StellarDiGraph object.''"

abbreviation msg_node_types :: string where
  "msg_node_types \<equiv>
     ''{}: node generator requires graph with single node type; a graph with multiple node types is passed. Stopping.''"

abbreviation msg_targets_type :: string where
  "msg_targets_type \<equiv>
     ''{}: Targets must be an iterable or None''"

abbreviation msg_targets_length :: string where
  "msg_targets_length \<equiv>
     ''{}: Targets must be the same length as node_ids''"

text \<open>The three loops of \<^verbatim>\<open>GraphGenerator.__init__\<close>; each stops at the first \<^verbatim>\<open>raise\<close>.\<close>

fun GraphGenerator_check_isinstance :: "py_object list \<Rightarrow> py_error option" where
  "GraphGenerator_check_isinstance [] = None"
| "GraphGenerator_check_isinstance (graph # rest) =
     (if \<not> isinstance_StellarGraph graph
      then Some (TypeError msg_graph_type)
      else GraphGenerator_check_isinstance rest)"

fun GraphGenerator_check_ml :: "py_object list \<Rightarrow> py_error option" where
  "GraphGenerator_check_ml [] = None"
| "GraphGenerator_check_ml (graph # rest) =
     (case call_check_graph_for_ml graph of
        Some e \<Rightarrow> Some e
      | None \<Rightarrow> GraphGenerator_check_ml rest)"

fun GraphGenerator_check_node_types :: "py_object list \<Rightarrow> py_error option" where
  "GraphGenerator_check_node_types [] = None"
| "GraphGenerator_check_node_types (graph # rest) =
     (case call_len_node_types graph of
        Inl e \<Rightarrow> Some e
      | Inr n \<Rightarrow>
          if n > 1
          then Some (ValueError msg_node_types)
          else GraphGenerator_check_node_types rest)"

text \<open>
  \<^verbatim>\<open>GraphGenerator.__init__(self, graphs, name=None)\<close>: the instance, or the exception
  that ends the construction.
\<close>

definition GraphGenerator_init ::
  "py_object list \<Rightarrow> string option \<Rightarrow> py_error + GraphGenerator" where
  "GraphGenerator_init gs nm =
     (case GraphGenerator_check_isinstance gs of
        Some e \<Rightarrow> Inl e
      | None \<Rightarrow>
     (case py_getitem gs 0 of
        Inl e \<Rightarrow> Inl e
      | Inr g0 \<Rightarrow>
     (case call_node_features_shape1 g0 of
        Inl e \<Rightarrow> Inl e
      | Inr d \<Rightarrow>
     (case GraphGenerator_check_ml gs of
        Some e \<Rightarrow> Inl e
      | None \<Rightarrow>
     (case GraphGenerator_check_node_types gs of
        Some e \<Rightarrow> Inl e
      | None \<Rightarrow>
          Inr \<lparr>GraphGenerator.graphs = gs, node_features_size = d, name = nm\<rparr>)))))"

text \<open>The list comprehension \<^verbatim>\<open>[self.graphs[i] for i in graph_ilocs]\<close>.\<close>

fun select_graphs :: "'a list \<Rightarrow> int list \<Rightarrow> py_error + 'a list" where
  "select_graphs gs [] = Inr []"
| "select_graphs gs (i # ilocs) =
     (case py_getitem gs i of
        Inl e \<Rightarrow> Inl e
      | Inr g \<Rightarrow>
          (case select_graphs gs ilocs of
             Inl e \<Rightarrow> Inl e
           | Inr sel \<Rightarrow> Inr (g # sel)))"

text \<open>
  \<^verbatim>\<open>GraphGenerator.flow(self, graph_ilocs, targets=None, batch_size=1, name=None)\<close>. The
  method is given the instance and gives back the instance as the call leaves it, with the
  sequence object or the exception raised. The method has no statement that assigns to
  \<^verbatim>\<open>self\<close>. \<open>rest\<close> is the \<^verbatim>\<open>return\<close> statement, reached when the targets are
  \<^verbatim>\<open>None\<close> or pass both checks.
\<close>

definition GraphGenerator_flow ::
  "GraphGenerator \<Rightarrow> int list \<Rightarrow> 't py_targets \<Rightarrow> py_value \<Rightarrow> string option
     \<Rightarrow> GraphGenerator \<times> (py_error + 't GraphSequence)" where
  "GraphGenerator_flow self graph_ilocs tgts bs nm =
     (let rest =
        (case select_graphs (GraphGenerator.graphs self) graph_ilocs of
           Inl e \<Rightarrow> Inl e
         | Inr sel \<Rightarrow>
             Inr \<lparr>GraphSequence.graphs = sel, targets = tgts, batch_size = bs, name = nm\<rparr>)
      in (self,
        case tgts of
          PyNone \<Rightarrow> rest
        | NotRealIterable t \<Rightarrow>
            Inl (TypeError msg_targets_type)
        | RealIterable rows \<Rightarrow>
            if length rows \<noteq> length graph_ilocs
            then Inl (ValueError msg_targets_length)
            else rest))"

section \<open>padded_graph_generator.py\<close>

record PaddedGraphGenerator =
  graphs :: "py_object list"
  node_features_size :: "int option"
  name :: "string option"

text \<open>The messages of the \<^verbatim>\<open>raise\<close> statements, the f-string fields left as written.\<close>

abbreviation msg_padded_graph_type :: string where
  "msg_padded_graph_type \<equiv>
     ''graphs: expected every element to be a StellarGraph object, found {type(graph).__name__}.''"

abbreviation msg_padded_node_types :: string where
  "msg_padded_node_types \<equiv>
     ''graphs: expected only graphs with a single node type, found a graph with node types: %(found)s''"

abbreviation msg_padded_dimensions :: string where
  "msg_padded_dimensions \<equiv>
     ''graphs: expected node features for all graph to have same dimensions,found {self.node_features_size} vs {f_dim}''"

abbreviation msg_padded_batch_type :: string where
  "msg_padded_batch_type \<equiv>
     ''expected batch_size to be integer type, found {type(batch_size).__name__}''"

abbreviation msg_padded_batch_value :: string where
  "msg_padded_batch_value \<equiv>
     ''expected batch_size to be strictly positive integer, found {batch_size}''"

abbreviation msg_padded_targets_type :: string where
  "msg_padded_targets_type \<equiv>
     ''targets: expected an iterable or None object, found {type(targets).__name__}''"

abbreviation msg_padded_targets_length :: string where
  "msg_padded_targets_length \<equiv>
     ''expected targets to be the same length as node_ids, found {len(targets)} vs {len(graph_ilocs)}''"

text \<open>
  The loop of \<^verbatim>\<open>PaddedGraphGenerator.__init__\<close>, with the value of
  \<^verbatim>\<open>self.node_features_size\<close> passed along.
\<close>

fun PaddedGraphGenerator_init_loop ::
  "py_object list \<Rightarrow> int option \<Rightarrow> py_error + int option" where
  "PaddedGraphGenerator_init_loop [] nfs = Inr nfs"
| "PaddedGraphGenerator_init_loop (Object t # rest) nfs =
     Inl (TypeError msg_padded_graph_type)"
| "PaddedGraphGenerator_init_loop (Graph graph # rest) nfs =
     (case unique_node_type graph msg_padded_node_types of
        Inl e \<Rightarrow> Inl e
      | Inr node_type \<Rightarrow>
     (case check_graph_for_ml graph of
        Some e \<Rightarrow> Inl e
      | None \<Rightarrow>
     (case node_feature_sizes graph node_type of
        None \<Rightarrow> Inl KeyError
      | Some f_dim \<Rightarrow>
          if nfs = None then PaddedGraphGenerator_init_loop rest (Some f_dim)
          else if nfs \<noteq> Some f_dim
          then Inl (ValueError msg_padded_dimensions)
          else PaddedGraphGenerator_init_loop rest nfs)))"

definition PaddedGraphGenerator_init ::
  "py_object list \<Rightarrow> string option \<Rightarrow> py_error + PaddedGraphGenerator" where
  "PaddedGraphGenerator_init gs nm =
     (case PaddedGraphGenerator_init_loop gs None of
        Inl e \<Rightarrow> Inl e
      | Inr nfs \<Rightarrow>
          Inr \<lparr>PaddedGraphGenerator.graphs = gs, node_features_size = nfs, name = nm\<rparr>)"

text \<open>
  \<^verbatim>\<open>PaddedGraphGenerator.flow(self, graph_ilocs, targets=None,
  symmetric_normalization=True, batch_size=1, name=None, shuffle=False, seed=None)\<close>, in
  the same way. \<open>rest\<close> is the two checks of the batch size and the \<^verbatim>\<open>return\<close>
  statement, which follow the checks of the targets.
\<close>

definition PaddedGraphGenerator_flow ::
  "PaddedGraphGenerator \<Rightarrow> int list \<Rightarrow> 't py_targets \<Rightarrow> bool \<Rightarrow> py_value
     \<Rightarrow> string option \<Rightarrow> bool \<Rightarrow> int option
     \<Rightarrow> PaddedGraphGenerator \<times> (py_error + 't PaddedGraphSequence)" where
  "PaddedGraphGenerator_flow self graph_ilocs tgts symm bs nm shuf sd =
     (let rest =
        (if \<not> isinstance_int bs
         then Inl (TypeError msg_padded_batch_type)
         else if int_value bs \<le> 0
         then Inl (ValueError msg_padded_batch_value)
         else
           (case select_graphs (PaddedGraphGenerator.graphs self) graph_ilocs of
              Inl e \<Rightarrow> Inl e
            | Inr sel \<Rightarrow>
                Inr \<lparr>PaddedGraphSequence.graphs = sel, targets = tgts,
                     symmetric_normalization = symm, batch_size = bs, name = nm,
                     shuffle = shuf, seed = sd\<rparr>))
      in (self,
        case tgts of
          PyNone \<Rightarrow> rest
        | NotRealIterable t \<Rightarrow>
            Inl (TypeError msg_padded_targets_type)
        | RealIterable rows \<Rightarrow>
            if length rows \<noteq> length graph_ilocs
            then Inl (ValueError msg_padded_targets_length)
            else rest))"

section \<open>The vocabulary of the properties\<close>

text \<open>A graph with a single node type whose ML-readiness check returns.\<close>

definition single_type_ml_ready :: "py_object \<Rightarrow> bool" where
  "single_type_ml_ready x =
     (case x of
        Graph g \<Rightarrow> length (node_types g) = 1 \<and> check_graph_for_ml g = None
      | Object t \<Rightarrow> False)"

text \<open>A graph with more than one node type.\<close>

definition multiple_node_types :: "py_object \<Rightarrow> bool" where
  "multiple_node_types x =
     (case x of
        Graph g \<Rightarrow> length (node_types g) > 1
      | Object t \<Rightarrow> False)"

text \<open>
  The feature dimensionality of a graph with a single node type: the entry of that type in
  the dict of feature sizes.
\<close>

definition feature_dimensionality :: "py_object \<Rightarrow> int option" where
  "feature_dimensionality x =
     (case x of
        Graph g \<Rightarrow> (case node_types g of [t] \<Rightarrow> node_feature_sizes g t | _ \<Rightarrow> None)
      | Object t \<Rightarrow> None)"

text \<open>
  The targets pass the checks of \<^verbatim>\<open>flow\<close>: \<^verbatim>\<open>None\<close>, or an iterable as long as the
  index list.
\<close>

definition targets_ok :: "'t py_targets \<Rightarrow> int list \<Rightarrow> bool" where
  "targets_ok tgts graph_ilocs =
     (case tgts of
        PyNone \<Rightarrow> True
      | RealIterable rows \<Rightarrow> length rows = length graph_ilocs
      | NotRealIterable t \<Rightarrow> False)"

text \<open>The batch size is a strictly positive integer.\<close>

definition batch_size_ok :: "py_value \<Rightarrow> bool" where
  "batch_size_ok bs = (isinstance_int bs \<and> 0 < int_value bs)"

text \<open>The graphs that the index list selects, in its order.\<close>

definition selected :: "'a list \<Rightarrow> int list \<Rightarrow> 'a list" where
  "selected gs graph_ilocs = map (\<lambda>i. gs ! iloc_pos gs i) graph_ilocs"

text \<open>
  The instance after a run of calls of \<^verbatim>\<open>flow\<close>, each call given by its arguments and
  made on the instance as the call before left it.
\<close>

fun GraphGenerator_flows ::
  "GraphGenerator \<Rightarrow> (int list \<times> 't py_targets \<times> py_value \<times> string option) list
     \<Rightarrow> GraphGenerator" where
  "GraphGenerator_flows self [] = self"
| "GraphGenerator_flows self ((graph_ilocs, tgts, bs, nm) # calls) =
     GraphGenerator_flows (fst (GraphGenerator_flow self graph_ilocs tgts bs nm)) calls"

fun PaddedGraphGenerator_flows ::
  "PaddedGraphGenerator
     \<Rightarrow> (int list \<times> 't py_targets \<times> bool \<times> py_value \<times> string option \<times> bool \<times> int option) list
     \<Rightarrow> PaddedGraphGenerator" where
  "PaddedGraphGenerator_flows self [] = self"
| "PaddedGraphGenerator_flows self ((graph_ilocs, tgts, symm, bs, nm, shuf, sd) # calls) =
     PaddedGraphGenerator_flows
       (fst (PaddedGraphGenerator_flow self graph_ilocs tgts symm bs nm shuf sd)) calls"

subsection \<open>Example graphs and instances\<close>

text \<open>
  A graph with the single node type \<open>t\<close> and features of dimension \<open>d\<close>, ready for
  machine learning; a graph with the two node types \<^verbatim>\<open>user\<close> and \<^verbatim>\<open>item\<close>; a list of
  three graphs with 4-dimensional features, and the two generators built from it.
\<close>

definition single_type_graph :: "string \<Rightarrow> int \<Rightarrow> StellarGraph" where
  "single_type_graph t d =
     \<lparr>node_types = [t], node_feature_sizes = [t \<mapsto> d],
      node_features_shape1 = Inr d, check_graph_for_ml = None\<rparr>"

definition two_type_graph :: StellarGraph where
  "two_type_graph =
     \<lparr>node_types = [''user'', ''item''],
      node_feature_sizes = [''user'' \<mapsto> 4, ''item'' \<mapsto> 4],
      node_features_shape1 = Inr 4, check_graph_for_ml = None\<rparr>"

definition example_graphs :: "py_object list" where
  "example_graphs =
     [Graph (single_type_graph ''a'' 4), Graph (single_type_graph ''b'' 4),
      Graph (single_type_graph ''c'' 4)]"

definition example_unpadded :: GraphGenerator where
  "example_unpadded =
     \<lparr>GraphGenerator.graphs = example_graphs, node_features_size = 4, name = None\<rparr>"

definition example_padded :: PaddedGraphGenerator where
  "example_padded =
     \<lparr>PaddedGraphGenerator.graphs = example_graphs, node_features_size = Some 4,
      name = None\<rparr>"

section \<open>Auxiliary facts\<close>

subsection \<open>The loops of the constructors\<close>

lemma check_isinstance_eq:
  "GraphGenerator_check_isinstance gs =
     (if list_all isinstance_StellarGraph gs then None else Some (TypeError msg_graph_type))"
  by (induction gs) simp_all

lemma check_ml_None:
  "(GraphGenerator_check_ml gs = None) = list_all (\<lambda>x. call_check_graph_for_ml x = None) gs"
  by (induction gs) (simp_all split: option.splits)

lemma check_node_types_eq:
  "list_all isinstance_StellarGraph gs \<Longrightarrow>
   GraphGenerator_check_node_types gs =
     (if list_ex multiple_node_types gs then Some (ValueError msg_node_types) else None)"
proof (induction gs)
  case Nil
  then show ?case by simp
next
  case (Cons x gs)
  then show ?case
    by (cases x) (simp_all add: multiple_node_types_def)
qed

lemma ready_isinstance:
  "list_all single_type_ml_ready gs \<Longrightarrow> list_all isinstance_StellarGraph gs"
  by (induction gs) (auto simp: single_type_ml_ready_def split: py_object.splits)

lemma ready_check_ml:
  "list_all single_type_ml_ready gs \<Longrightarrow> GraphGenerator_check_ml gs = None"
  by (induction gs) (auto simp: single_type_ml_ready_def split: py_object.splits)

lemma ready_not_multiple:
  "list_all single_type_ml_ready gs \<Longrightarrow> \<not> list_ex multiple_node_types gs"
  by (induction gs)
     (auto simp: single_type_ml_ready_def multiple_node_types_def split: py_object.splits)

lemma GraphGenerator_init_ready:
  assumes "list_all single_type_ml_ready (g0 # rest)"
    and "call_node_features_shape1 g0 = Inr d"
  shows "GraphGenerator_init (g0 # rest) nm =
    Inr \<lparr>GraphGenerator.graphs = g0 # rest, node_features_size = d, name = nm\<rparr>"
proof -
  have 1: "GraphGenerator_check_isinstance (g0 # rest) = None"
    using ready_isinstance [OF assms(1)] by (simp only: check_isinstance_eq if_True)
  have 2: "py_getitem (g0 # rest) 0 = Inr g0"
    by (simp add: py_getitem_def valid_iloc_def iloc_pos_def)
  have 3: "GraphGenerator_check_ml (g0 # rest) = None"
    by (rule ready_check_ml [OF assms(1)])
  have 4: "GraphGenerator_check_node_types (g0 # rest) = None"
    using check_node_types_eq [OF ready_isinstance [OF assms(1)]]
      ready_not_multiple [OF assms(1)] by simp
  show ?thesis
    unfolding GraphGenerator_init_def by (simp only: 1 2 3 4 assms(2) option.case sum.case)
qed

lemma padded_loop_ready:
  "list_all single_type_ml_ready gs \<Longrightarrow>
   list_all (\<lambda>x. feature_dimensionality x = Some d) gs \<Longrightarrow>
   nfs = None \<or> nfs = Some d \<Longrightarrow>
   PaddedGraphGenerator_init_loop gs nfs = Inr (if gs = [] then nfs else Some d)"
proof (induction gs arbitrary: nfs)
  case Nil
  then show ?case by simp
next
  case (Cons x gs)
  then obtain g where x: "x = Graph g"
    by (cases x) (simp_all add: single_type_ml_ready_def)
  from Cons.prems x obtain t where t: "node_types g = [t]" "check_graph_for_ml g = None"
    "node_feature_sizes g t = Some d"
    by (auto simp: single_type_ml_ready_def feature_dimensionality_def split: list.splits)
  have tl: "PaddedGraphGenerator_init_loop gs (Some d) = Inr (Some d)"
    using Cons.IH [of "Some d"] Cons.prems by simp
  show ?case
    using Cons.prems(3) by (auto simp: x t unique_node_type_def tl)
qed

lemma padded_loop_append:
  "PaddedGraphGenerator_init_loop (pre @ post) nfs =
     (case PaddedGraphGenerator_init_loop pre nfs of
        Inl e \<Rightarrow> Inl e
      | Inr nfs' \<Rightarrow> PaddedGraphGenerator_init_loop post nfs')"
proof (induction pre arbitrary: nfs)
  case Nil
  then show ?case by simp
next
  case (Cons x pre)
  show ?case
  proof (cases x)
    case (Graph g)
    then show ?thesis
      by (auto simp: Cons.IH split: sum.splits option.splits)
  next
    case (Object t)
    then show ?thesis by simp
  qed
qed

lemma padded_loop_offending:
  "list_ex (\<lambda>x. \<not> isinstance_StellarGraph x \<or> multiple_node_types x) gs \<Longrightarrow>
   isl (PaddedGraphGenerator_init_loop gs nfs)"
proof (induction gs nfs rule: PaddedGraphGenerator_init_loop.induct)
  case (1 nfs)
  then show ?case by simp
next
  case (2 t rest nfs)
  then show ?case by simp
next
  case (3 graph rest nfs)
  then show ?case
    by (auto simp: multiple_node_types_def unique_node_type_def
        split: sum.splits option.splits list.splits)
qed

subsection \<open>Selection and the checks of flow\<close>

lemma select_graphs_valid:
  "list_all (valid_iloc gs) ilocs \<Longrightarrow> select_graphs gs ilocs = Inr (selected gs ilocs)"
  by (induction ilocs) (simp_all add: selected_def py_getitem_def)

lemma select_graphs_invalid:
  "\<not> list_all (valid_iloc gs) ilocs \<Longrightarrow> select_graphs gs ilocs = Inl IndexError"
  by (induction ilocs) (auto simp: py_getitem_def split: sum.splits)

lemma select_graphs_error:
  "select_graphs gs ilocs = Inl e \<Longrightarrow> e = IndexError"
  by (cases "list_all (valid_iloc gs) ilocs")
     (simp_all add: select_graphs_valid select_graphs_invalid)

lemma selected_nth:
  "k < length ilocs \<Longrightarrow> list_all (valid_iloc gs) ilocs \<Longrightarrow>
   py_getitem gs (ilocs ! k) = Inr (selected gs ilocs ! k)"
  by (simp add: selected_def py_getitem_def list_all_length)

lemma GraphGenerator_flow_ok:
  "targets_ok tgts ilocs \<Longrightarrow>
   snd (GraphGenerator_flow self ilocs tgts bs nm) =
     (case select_graphs (GraphGenerator.graphs self) ilocs of
        Inl e \<Rightarrow> Inl e
      | Inr sel \<Rightarrow>
          Inr \<lparr>GraphSequence.graphs = sel, targets = tgts, batch_size = bs, name = nm\<rparr>)"
  by (cases tgts) (auto simp: GraphGenerator_flow_def targets_ok_def split: sum.splits)

lemma GraphGenerator_flow_targets:
  "\<not> targets_ok tgts ilocs \<Longrightarrow>
   snd (GraphGenerator_flow self ilocs tgts bs nm) =
     (case tgts of
        NotRealIterable t \<Rightarrow> Inl (TypeError msg_targets_type)
      | _ \<Rightarrow> Inl (ValueError msg_targets_length))"
  by (cases tgts) (simp_all add: GraphGenerator_flow_def targets_ok_def)

lemma PaddedGraphGenerator_flow_ok:
  "targets_ok tgts ilocs \<Longrightarrow> batch_size_ok bs \<Longrightarrow>
   snd (PaddedGraphGenerator_flow self ilocs tgts symm bs nm shuf sd) =
     (case select_graphs (PaddedGraphGenerator.graphs self) ilocs of
        Inl e \<Rightarrow> Inl e
      | Inr sel \<Rightarrow>
          Inr \<lparr>PaddedGraphSequence.graphs = sel, targets = tgts,
               symmetric_normalization = symm, batch_size = bs, name = nm,
               shuffle = shuf, seed = sd\<rparr>)"
  by (cases tgts)
     (auto simp: PaddedGraphGenerator_flow_def targets_ok_def batch_size_ok_def
       split: sum.splits)

lemma PaddedGraphGenerator_flow_batch:
  "targets_ok tgts ilocs \<Longrightarrow> \<not> batch_size_ok bs \<Longrightarrow>
   snd (PaddedGraphGenerator_flow self ilocs tgts symm bs nm shuf sd) =
     (if isinstance_int bs then Inl (ValueError msg_padded_batch_value)
      else Inl (TypeError msg_padded_batch_type))"
  by (cases tgts) (auto simp: PaddedGraphGenerator_flow_def targets_ok_def batch_size_ok_def)

lemma PaddedGraphGenerator_flow_targets:
  "\<not> targets_ok tgts ilocs \<Longrightarrow>
   snd (PaddedGraphGenerator_flow self ilocs tgts symm bs nm shuf sd) =
     (case tgts of
        NotRealIterable t \<Rightarrow> Inl (TypeError msg_padded_targets_type)
      | _ \<Rightarrow> Inl (ValueError msg_padded_targets_length))"
  by (cases tgts) (simp_all add: PaddedGraphGenerator_flow_def targets_ok_def)

subsection \<open>The instance across calls of flow\<close>

lemma GraphGenerator_flow_fst:
  "fst (GraphGenerator_flow self ilocs tgts bs nm) = self"
  by (simp add: GraphGenerator_flow_def Let_def)

lemma PaddedGraphGenerator_flow_fst:
  "fst (PaddedGraphGenerator_flow self ilocs tgts symm bs nm shuf sd) = self"
  by (simp add: PaddedGraphGenerator_flow_def Let_def)

lemma GraphGenerator_flows_id:
  "GraphGenerator_flows self calls = self"
  by (induction self calls rule: GraphGenerator_flows.induct)
     (simp_all add: GraphGenerator_flow_fst)

lemma PaddedGraphGenerator_flows_id:
  "PaddedGraphGenerator_flows self calls = self"
  by (induction self calls rule: PaddedGraphGenerator_flows.induct)
     (simp_all add: PaddedGraphGenerator_flow_fst)

subsection \<open>The example instances are constructed\<close>

lemma example_unpadded_constructed:
  "GraphGenerator_init example_graphs None = Inr example_unpadded"
  by (simp add: GraphGenerator_init_def example_graphs_def example_unpadded_def
      single_type_graph_def py_getitem_def valid_iloc_def iloc_pos_def)

lemma example_padded_constructed:
  "PaddedGraphGenerator_init example_graphs None = Inr example_padded"
  by (simp add: PaddedGraphGenerator_init_def example_graphs_def example_padded_def
      single_type_graph_def unique_node_type_def)

section \<open>Properties of construction\<close>

text \<open>
  C1, as amended. For every non-empty list of \<^verbatim>\<open>StellarGraph\<close> objects, each with a single
  node type and passing the ML-readiness check: \<^verbatim>\<open>GraphGenerator.__init__\<close> succeeds and
  records as \<^verbatim>\<open>node_features_size\<close> the feature dimension \<open>d\<close> read from the first graph,
  when that read returns; \<^verbatim>\<open>PaddedGraphGenerator.__init__\<close> succeeds and records the
  common feature dimensionality \<open>d'\<close>, when all the graphs have the same one.
\<close>

theorem C1_construction_succeeds:
  assumes "list_all single_type_ml_ready (g0 # rest)"
  shows "(call_node_features_shape1 g0 = Inr d \<longrightarrow>
            GraphGenerator_init (g0 # rest) nm =
              Inr \<lparr>GraphGenerator.graphs = g0 # rest, node_features_size = d, name = nm\<rparr>) \<and>
         (list_all (\<lambda>x. feature_dimensionality x = Some d') (g0 # rest) \<longrightarrow>
            PaddedGraphGenerator_init (g0 # rest) nm =
              Inr \<lparr>PaddedGraphGenerator.graphs = g0 # rest, node_features_size = Some d',
                   name = nm\<rparr>)"
proof (intro conjI impI)
  assume "call_node_features_shape1 g0 = Inr d"
  then show "GraphGenerator_init (g0 # rest) nm =
      Inr \<lparr>GraphGenerator.graphs = g0 # rest, node_features_size = d, name = nm\<rparr>"
    by (rule GraphGenerator_init_ready [OF assms])
next
  assume "list_all (\<lambda>x. feature_dimensionality x = Some d') (g0 # rest)"
  then have "PaddedGraphGenerator_init_loop (g0 # rest) None = Inr (Some d')"
    using padded_loop_ready [OF assms, of d' None] by simp
  then show "PaddedGraphGenerator_init (g0 # rest) nm =
      Inr \<lparr>PaddedGraphGenerator.graphs = g0 # rest, node_features_size = Some d', name = nm\<rparr>"
    by (simp add: PaddedGraphGenerator_init_def)
qed

text \<open>The amended C1 on two graphs with 4-dimensional features.\<close>

theorem C1_construction_succeeds_witness:
  "list_all single_type_ml_ready
     [Graph (single_type_graph ''a'' 4), Graph (single_type_graph ''b'' 4)] \<and>
   call_node_features_shape1 (Graph (single_type_graph ''a'' 4)) = Inr 4 \<and>
   list_all (\<lambda>x. feature_dimensionality x = Some 4)
     [Graph (single_type_graph ''a'' 4), Graph (single_type_graph ''b'' 4)] \<and>
   GraphGenerator_init
     [Graph (single_type_graph ''a'' 4), Graph (single_type_graph ''b'' 4)] None =
     Inr \<lparr>GraphGenerator.graphs =
            [Graph (single_type_graph ''a'' 4), Graph (single_type_graph ''b'' 4)],
          node_features_size = 4, name = None\<rparr> \<and>
   PaddedGraphGenerator_init
     [Graph (single_type_graph ''a'' 4), Graph (single_type_graph ''b'' 4)] None =
     Inr \<lparr>PaddedGraphGenerator.graphs =
            [Graph (single_type_graph ''a'' 4), Graph (single_type_graph ''b'' 4)],
          node_features_size = Some 4, name = None\<rparr>"
proof -
  have 1: "list_all single_type_ml_ready
      [Graph (single_type_graph ''a'' 4), Graph (single_type_graph ''b'' 4)]"
    by (simp add: single_type_ml_ready_def single_type_graph_def)
  have 2: "call_node_features_shape1 (Graph (single_type_graph ''a'' 4)) = Inr 4"
    by (simp add: single_type_graph_def)
  have 3: "list_all (\<lambda>x. feature_dimensionality x = Some 4)
      [Graph (single_type_graph ''a'' 4), Graph (single_type_graph ''b'' 4)]"
    by (simp add: feature_dimensionality_def single_type_graph_def)
  from C1_construction_succeeds [OF 1, of 4 None 4] 1 2 3 show ?thesis by blast
qed

text \<open>
  C1 as stated fails. Two graphs, each with a single node type and ML-ready features, of
  dimensions 4 and 3: the padded constructor raises \<^verbatim>\<open>ValueError\<close>. The empty list, in
  which every graph is as required: the unpadded constructor raises \<^verbatim>\<open>IndexError\<close>, and
  the padded one records \<^verbatim>\<open>None\<close>, no dimensionality.
\<close>

theorem C1_counterexample:
  "list_all single_type_ml_ready
     [Graph (single_type_graph ''a'' 4), Graph (single_type_graph ''a'' 3)] \<and>
   PaddedGraphGenerator_init
     [Graph (single_type_graph ''a'' 4), Graph (single_type_graph ''a'' 3)] None =
     Inl (ValueError msg_padded_dimensions) \<and>
   list_all single_type_ml_ready [] \<and>
   GraphGenerator_init [] None = Inl IndexError \<and>
   PaddedGraphGenerator_init [] None =
     Inr \<lparr>PaddedGraphGenerator.graphs = [], node_features_size = None, name = None\<rparr>"
  by (simp add: single_type_ml_ready_def single_type_graph_def PaddedGraphGenerator_init_def
      GraphGenerator_init_def unique_node_type_def py_getitem_def valid_iloc_def)

text \<open>
  C3. Two graphs that pass the type, ML-readiness and single-node-type checks and whose
  feature dimensionalities \<open>d1\<close> and \<open>d2\<close> differ: \<^verbatim>\<open>PaddedGraphGenerator.__init__\<close> fails
  with the \<^verbatim>\<open>ValueError\<close> of its dimension check; \<^verbatim>\<open>GraphGenerator.__init__\<close> makes no
  check across graphs and succeeds, recording the dimensionality \<open>d1\<close> that it reads from
  the first graph.
\<close>

theorem C3_dimension_cross_check:
  assumes "single_type_ml_ready (Graph g1)" and "single_type_ml_ready (Graph g2)"
    and "feature_dimensionality (Graph g1) = Some d1"
    and "feature_dimensionality (Graph g2) = Some d2"
    and "d1 \<noteq> d2"
    and "node_features_shape1 g1 = Inr d1"
  shows "PaddedGraphGenerator_init [Graph g1, Graph g2] nm =
           Inl (ValueError msg_padded_dimensions) \<and>
         GraphGenerator_init [Graph g1, Graph g2] nm =
           Inr \<lparr>GraphGenerator.graphs = [Graph g1, Graph g2], node_features_size = d1,
                name = nm\<rparr>"
proof
  from assms(1,3) obtain t1 where 1: "node_types g1 = [t1]" "check_graph_for_ml g1 = None"
    "node_feature_sizes g1 t1 = Some d1"
    by (auto simp: single_type_ml_ready_def feature_dimensionality_def split: list.splits)
  from assms(2,4) obtain t2 where 2: "node_types g2 = [t2]" "check_graph_for_ml g2 = None"
    "node_feature_sizes g2 t2 = Some d2"
    by (auto simp: single_type_ml_ready_def feature_dimensionality_def split: list.splits)
  show "PaddedGraphGenerator_init [Graph g1, Graph g2] nm =
      Inl (ValueError msg_padded_dimensions)"
    using assms(5) by (simp add: PaddedGraphGenerator_init_def unique_node_type_def 1 2)
next
  have "list_all single_type_ml_ready [Graph g1, Graph g2]"
    using assms(1,2) by simp
  then show "GraphGenerator_init [Graph g1, Graph g2] nm =
      Inr \<lparr>GraphGenerator.graphs = [Graph g1, Graph g2], node_features_size = d1, name = nm\<rparr>"
    by (rule GraphGenerator_init_ready) (simp add: assms(6))
qed

text \<open>C3 on two graphs with features of dimensions 4 and 3.\<close>

theorem C3_dimension_cross_check_witness:
  "single_type_ml_ready (Graph (single_type_graph ''a'' 4)) \<and>
   single_type_ml_ready (Graph (single_type_graph ''a'' 3)) \<and>
   feature_dimensionality (Graph (single_type_graph ''a'' 4)) = Some 4 \<and>
   feature_dimensionality (Graph (single_type_graph ''a'' 3)) = Some 3 \<and>
   (4 :: int) \<noteq> 3 \<and>
   node_features_shape1 (single_type_graph ''a'' 4) = Inr 4 \<and>
   PaddedGraphGenerator_init
     [Graph (single_type_graph ''a'' 4), Graph (single_type_graph ''a'' 3)] None =
     Inl (ValueError msg_padded_dimensions) \<and>
   GraphGenerator_init
     [Graph (single_type_graph ''a'' 4), Graph (single_type_graph ''a'' 3)] None =
     Inr \<lparr>GraphGenerator.graphs =
            [Graph (single_type_graph ''a'' 4), Graph (single_type_graph ''a'' 3)],
          node_features_size = 4, name = None\<rparr>"
proof -
  have 1: "single_type_ml_ready (Graph (single_type_graph ''a'' 4))"
    and 2: "single_type_ml_ready (Graph (single_type_graph ''a'' 3))"
    by (simp_all add: single_type_ml_ready_def single_type_graph_def)
  have 3: "feature_dimensionality (Graph (single_type_graph ''a'' 4)) = Some 4"
    and 4: "feature_dimensionality (Graph (single_type_graph ''a'' 3)) = Some 3"
    by (simp_all add: feature_dimensionality_def single_type_graph_def)
  have 5: "(4 :: int) \<noteq> 3"
    by simp
  have 6: "node_features_shape1 (single_type_graph ''a'' 4) = Inr 4"
    by (simp add: single_type_graph_def)
  from C3_dimension_cross_check [OF 1 2 3 4 5 6, of None] 1 2 3 4 5 6 show ?thesis
    by blast
qed

text \<open>
  C4, as amended. A list with an element that is not a \<^verbatim>\<open>StellarGraph\<close>, or with a graph
  that has more than one node type, is rejected by both constructors, and the first check
  that fails decides the class of the error.
  \<^item> \<^verbatim>\<open>GraphGenerator.__init__\<close> checks the types of all elements first: an element that
    is not a \<^verbatim>\<open>StellarGraph\<close>, anywhere in the list, gives \<^verbatim>\<open>TypeError\<close>. When all elements
    are graphs, the feature read of the first graph returns and every graph passes the
    ML-readiness check, a graph with more than one node type gives \<^verbatim>\<open>ValueError\<close>.
  \<^item> \<^verbatim>\<open>PaddedGraphGenerator.__init__\<close> checks element by element: after elements that
    pass all the checks of the loop, an element that is not a \<^verbatim>\<open>StellarGraph\<close> gives
    \<^verbatim>\<open>TypeError\<close> and a graph with more than one node type gives \<^verbatim>\<open>ValueError\<close>.
\<close>

theorem C4_rejected_graph_lists:
  "(list_ex (\<lambda>x. \<not> isinstance_StellarGraph x) gs1 \<longrightarrow>
      GraphGenerator_init gs1 nm = Inl (TypeError msg_graph_type)) \<and>
   (list_all isinstance_StellarGraph (g0 # rest) \<and>
    call_node_features_shape1 g0 = Inr d \<and>
    list_all (\<lambda>x. call_check_graph_for_ml x = None) (g0 # rest) \<and>
    list_ex multiple_node_types (g0 # rest) \<longrightarrow>
      GraphGenerator_init (g0 # rest) nm = Inl (ValueError msg_node_types)) \<and>
   (PaddedGraphGenerator_init_loop pre1 None = Inr nfs1 \<and> \<not> isinstance_StellarGraph x1 \<longrightarrow>
      PaddedGraphGenerator_init (pre1 @ x1 # post1) nm = Inl (TypeError msg_padded_graph_type)) \<and>
   (PaddedGraphGenerator_init_loop pre2 None = Inr nfs2 \<and> multiple_node_types x2 \<longrightarrow>
      PaddedGraphGenerator_init (pre2 @ x2 # post2) nm =
        Inl (ValueError msg_padded_node_types)) \<and>
   (list_ex (\<lambda>x. \<not> isinstance_StellarGraph x \<or> multiple_node_types x) gs3 \<longrightarrow>
      isl (GraphGenerator_init gs3 nm) \<and> isl (PaddedGraphGenerator_init gs3 nm))"
proof (intro conjI impI)
  assume "list_ex (\<lambda>x. \<not> isinstance_StellarGraph x) gs1"
  then have "\<not> list_all isinstance_StellarGraph gs1"
    by (simp add: list_all_iff list_ex_iff)
  then show "GraphGenerator_init gs1 nm = Inl (TypeError msg_graph_type)"
    by (simp add: GraphGenerator_init_def check_isinstance_eq)
next
  assume a: "list_all isinstance_StellarGraph (g0 # rest) \<and>
    call_node_features_shape1 g0 = Inr d \<and>
    list_all (\<lambda>x. call_check_graph_for_ml x = None) (g0 # rest) \<and>
    list_ex multiple_node_types (g0 # rest)"
  have 1: "GraphGenerator_check_isinstance (g0 # rest) = None"
    using a by (simp only: check_isinstance_eq if_True)
  have 2: "py_getitem (g0 # rest) 0 = Inr g0"
    by (simp add: py_getitem_def valid_iloc_def iloc_pos_def)
  have 3: "GraphGenerator_check_ml (g0 # rest) = None"
    using a by (simp only: check_ml_None)
  have 4: "GraphGenerator_check_node_types (g0 # rest) = Some (ValueError msg_node_types)"
    using a by (simp only: check_node_types_eq if_True)
  show "GraphGenerator_init (g0 # rest) nm = Inl (ValueError msg_node_types)"
    unfolding GraphGenerator_init_def using a by (simp only: 1 2 3 4 option.case sum.case)
next
  assume a: "PaddedGraphGenerator_init_loop pre1 None = Inr nfs1 \<and> \<not> isinstance_StellarGraph x1"
  then obtain t where "x1 = Object t"
    by (cases x1) simp_all
  with a show "PaddedGraphGenerator_init (pre1 @ x1 # post1) nm =
      Inl (TypeError msg_padded_graph_type)"
    by (simp add: PaddedGraphGenerator_init_def padded_loop_append)
next
  assume a: "PaddedGraphGenerator_init_loop pre2 None = Inr nfs2 \<and> multiple_node_types x2"
  then obtain g where g: "x2 = Graph g" "length (node_types g) > 1"
    by (cases x2) (simp_all add: multiple_node_types_def)
  then have "unique_node_type g msg_padded_node_types = Inl (ValueError msg_padded_node_types)"
    by (cases "node_types g"; cases "tl (node_types g)")
       (simp_all add: unique_node_type_def split: list.splits)
  with a g show "PaddedGraphGenerator_init (pre2 @ x2 # post2) nm =
      Inl (ValueError msg_padded_node_types)"
    by (simp add: PaddedGraphGenerator_init_def padded_loop_append)
next
  assume a: "list_ex (\<lambda>x. \<not> isinstance_StellarGraph x \<or> multiple_node_types x) gs3"
  show "isl (GraphGenerator_init gs3 nm)"
  proof (cases "list_all isinstance_StellarGraph gs3")
    case False
    then show ?thesis
      by (simp add: GraphGenerator_init_def check_isinstance_eq)
  next
    case True
    with a have "list_ex multiple_node_types gs3"
      by (auto simp: list_all_iff list_ex_iff)
    with True have "GraphGenerator_check_node_types gs3 = Some (ValueError msg_node_types)"
      by (simp only: check_node_types_eq if_True)
    then show ?thesis
      by (simp add: GraphGenerator_init_def split: option.splits sum.splits)
  qed
next
  assume "list_ex (\<lambda>x. \<not> isinstance_StellarGraph x \<or> multiple_node_types x) gs3"
  then have "isl (PaddedGraphGenerator_init_loop gs3 None)"
    by (rule padded_loop_offending)
  then show "isl (PaddedGraphGenerator_init gs3 nm)"
    by (cases "PaddedGraphGenerator_init_loop gs3 None")
       (simp_all add: PaddedGraphGenerator_init_def)
qed

text \<open>
  The amended C4 on lists of two elements: a graph with two node types followed by an
  \<^verbatim>\<open>int\<close>, a graph with one node type followed by one with two, and a graph with one node
  type followed by an \<^verbatim>\<open>int\<close>.
\<close>

theorem C4_rejected_graph_lists_witness:
  "list_ex (\<lambda>x. \<not> isinstance_StellarGraph x) [Graph two_type_graph, Object ''int''] \<and>
   GraphGenerator_init [Graph two_type_graph, Object ''int''] None =
     Inl (TypeError msg_graph_type) \<and>
   list_all isinstance_StellarGraph [Graph (single_type_graph ''a'' 4), Graph two_type_graph] \<and>
   call_node_features_shape1 (Graph (single_type_graph ''a'' 4)) = Inr 4 \<and>
   list_all (\<lambda>x. call_check_graph_for_ml x = None)
     [Graph (single_type_graph ''a'' 4), Graph two_type_graph] \<and>
   list_ex multiple_node_types [Graph (single_type_graph ''a'' 4), Graph two_type_graph] \<and>
   GraphGenerator_init [Graph (single_type_graph ''a'' 4), Graph two_type_graph] None =
     Inl (ValueError msg_node_types) \<and>
   PaddedGraphGenerator_init_loop [Graph (single_type_graph ''a'' 4)] None = Inr (Some 4) \<and>
   \<not> isinstance_StellarGraph (Object ''int'') \<and>
   PaddedGraphGenerator_init ([Graph (single_type_graph ''a'' 4)] @ Object ''int'' # []) None =
     Inl (TypeError msg_padded_graph_type) \<and>
   multiple_node_types (Graph two_type_graph) \<and>
   PaddedGraphGenerator_init
     ([Graph (single_type_graph ''a'' 4)] @ Graph two_type_graph # []) None =
     Inl (ValueError msg_padded_node_types) \<and>
   isl (PaddedGraphGenerator_init [Graph two_type_graph, Object ''int''] None)"
proof -
  have 1: "list_ex (\<lambda>x. \<not> isinstance_StellarGraph x) [Graph two_type_graph, Object ''int'']"
    by simp
  have 2: "list_all isinstance_StellarGraph
      [Graph (single_type_graph ''a'' 4), Graph two_type_graph]"
    by simp
  have 3: "call_node_features_shape1 (Graph (single_type_graph ''a'' 4)) = Inr 4"
    by (simp add: single_type_graph_def)
  have 4: "list_all (\<lambda>x. call_check_graph_for_ml x = None)
      [Graph (single_type_graph ''a'' 4), Graph two_type_graph]"
    by (simp add: single_type_graph_def two_type_graph_def)
  have 5: "list_ex multiple_node_types [Graph (single_type_graph ''a'' 4), Graph two_type_graph]"
    by (simp add: multiple_node_types_def two_type_graph_def)
  have 6: "PaddedGraphGenerator_init_loop [Graph (single_type_graph ''a'' 4)] None =
      Inr (Some 4)"
    by (simp add: single_type_graph_def unique_node_type_def)
  have 7: "\<not> isinstance_StellarGraph (Object ''int'')"
    by simp
  have 8: "multiple_node_types (Graph two_type_graph)"
    by (simp add: multiple_node_types_def two_type_graph_def)
  have 9: "list_ex (\<lambda>x. \<not> isinstance_StellarGraph x \<or> multiple_node_types x)
      [Graph two_type_graph, Object ''int'']"
    by simp
  from C4_rejected_graph_lists [of "[Graph two_type_graph, Object ''int'']" None
      "Graph (single_type_graph ''a'' 4)" "[Graph two_type_graph]" 4
      "[Graph (single_type_graph ''a'' 4)]" "Some 4" "Object ''int''" "[]"
      "[Graph (single_type_graph ''a'' 4)]" "Some 4" "Graph two_type_graph" "[]"
      "[Graph two_type_graph, Object ''int'']"]
    1 2 3 4 5 6 7 8 9
  show ?thesis by blast
qed

text \<open>
  C4 as stated fails. The list of an \<^verbatim>\<open>int\<close> followed by a graph with two node types has
  a graph with more than one node type, and both constructors raise \<^verbatim>\<open>TypeError\<close>, not
  \<^verbatim>\<open>ValueError\<close>. The list of a graph with two node types followed by an \<^verbatim>\<open>int\<close> has an
  element that is not a graph, and the padded constructor raises \<^verbatim>\<open>ValueError\<close>, not
  \<^verbatim>\<open>TypeError\<close>.
\<close>

theorem C4_counterexample:
  "list_ex multiple_node_types [Object ''int'', Graph two_type_graph] \<and>
   GraphGenerator_init [Object ''int'', Graph two_type_graph] None =
     Inl (TypeError msg_graph_type) \<and>
   PaddedGraphGenerator_init [Object ''int'', Graph two_type_graph] None =
     Inl (TypeError msg_padded_graph_type) \<and>
   list_ex (\<lambda>x. \<not> isinstance_StellarGraph x) [Graph two_type_graph, Object ''int''] \<and>
   PaddedGraphGenerator_init [Graph two_type_graph, Object ''int''] None =
     Inl (ValueError msg_padded_node_types)"
  by (simp add: multiple_node_types_def two_type_graph_def GraphGenerator_init_def
      PaddedGraphGenerator_init_def unique_node_type_def)

text \<open>
  C9. Constructing with an empty list of graphs: \<^verbatim>\<open>GraphGenerator.__init__\<close> fails with
  the \<^verbatim>\<open>IndexError\<close> of the unguarded read \<^verbatim>\<open>graphs[0]\<close>, which is neither a
  \<^verbatim>\<open>TypeError\<close> nor a \<^verbatim>\<open>ValueError\<close>; \<^verbatim>\<open>PaddedGraphGenerator.__init__\<close> succeeds and
  leaves \<^verbatim>\<open>node_features_size\<close> equal to \<^verbatim>\<open>None\<close>.
\<close>

theorem C9_empty_graph_list:
  "GraphGenerator_init [] nm = Inl IndexError \<and>
   PaddedGraphGenerator_init [] nm =
     Inr \<lparr>PaddedGraphGenerator.graphs = [], node_features_size = None, name = nm\<rparr>"
  by (simp add: GraphGenerator_init_def PaddedGraphGenerator_init_def py_getitem_def
      valid_iloc_def)

section \<open>Properties of flow\<close>

text \<open>
  C2. The claim is that both \<^verbatim>\<open>flow\<close> methods validate the batch size before they
  delegate. \<^verbatim>\<open>GraphGenerator.flow\<close> does not: on the generator built from the three
  example graphs, called with the index list \<^verbatim>\<open>[0]\<close>, no targets and the batch size 0, or
  a batch size that is a \<^verbatim>\<open>float\<close>, it returns a sequence object that holds this batch
  size. \<^verbatim>\<open>PaddedGraphGenerator.flow\<close> raises \<^verbatim>\<open>ValueError\<close> and \<^verbatim>\<open>TypeError\<close> on the same
  calls.
\<close>

theorem C2_unpadded_flow_forwards_batch_size:
  "GraphGenerator_init example_graphs None = Inr example_unpadded \<and>
   snd (GraphGenerator_flow example_unpadded [0] (PyNone :: int list py_targets)
          (PyInt 0) None) =
     Inr \<lparr>GraphSequence.graphs = [Graph (single_type_graph ''a'' 4)], targets = PyNone,
          batch_size = PyInt 0, name = None\<rparr> \<and>
   snd (GraphGenerator_flow example_unpadded [0] (PyNone :: int list py_targets)
          (PyOther ''float'') None) =
     Inr \<lparr>GraphSequence.graphs = [Graph (single_type_graph ''a'' 4)], targets = PyNone,
          batch_size = PyOther ''float'', name = None\<rparr> \<and>
   PaddedGraphGenerator_init example_graphs None = Inr example_padded \<and>
   snd (PaddedGraphGenerator_flow example_padded [0] (PyNone :: int list py_targets) True
          (PyInt 0) None False None) =
     Inl (ValueError msg_padded_batch_value) \<and>
   snd (PaddedGraphGenerator_flow example_padded [0] (PyNone :: int list py_targets) True
          (PyOther ''float'') None False None) =
     Inl (TypeError msg_padded_batch_type)"
  by (simp add: example_unpadded_constructed example_padded_constructed)
     (simp add: GraphGenerator_flow_def PaddedGraphGenerator_flow_def example_unpadded_def
       example_padded_def example_graphs_def py_getitem_def valid_iloc_def iloc_pos_def)

text \<open>
  C5. \<^verbatim>\<open>PaddedGraphGenerator.flow\<close> with the batch size 0, -1 or an object that is not an
  integer always fails, with a \<^verbatim>\<open>TypeError\<close> or a \<^verbatim>\<open>ValueError\<close>. When the targets pass
  their checks, which come first, the error is that of the batch size: \<^verbatim>\<open>ValueError\<close> for
  0 and for -1, \<^verbatim>\<open>TypeError\<close> for an object that is not an integer. With an integer
  batch size of 1 or more, targets that pass their checks and an index list of valid
  positions, the call succeeds.
\<close>

theorem C5_padded_batch_size:
  "(bs = PyInt 0 \<or> bs = PyInt (- 1) \<or> \<not> isinstance_int bs \<longrightarrow>
      type_classified (snd (PaddedGraphGenerator_flow self ilocs tgts symm bs nm shuf sd)) \<or>
      value_classified (snd (PaddedGraphGenerator_flow self ilocs tgts symm bs nm shuf sd))) \<and>
   (targets_ok tgts ilocs \<longrightarrow>
      snd (PaddedGraphGenerator_flow self ilocs tgts symm (PyInt 0) nm shuf sd) =
        Inl (ValueError msg_padded_batch_value) \<and>
      snd (PaddedGraphGenerator_flow self ilocs tgts symm (PyInt (- 1)) nm shuf sd) =
        Inl (ValueError msg_padded_batch_value)) \<and>
   (targets_ok tgts ilocs \<and> \<not> isinstance_int b \<longrightarrow>
      snd (PaddedGraphGenerator_flow self ilocs tgts symm b nm shuf sd) =
        Inl (TypeError msg_padded_batch_type)) \<and>
   (targets_ok tgts ilocs \<and> list_all (valid_iloc (PaddedGraphGenerator.graphs self)) ilocs \<and>
    1 \<le> n \<longrightarrow>
      snd (PaddedGraphGenerator_flow self ilocs tgts symm (PyInt n) nm shuf sd) =
        Inr \<lparr>PaddedGraphSequence.graphs = selected (PaddedGraphGenerator.graphs self) ilocs,
             targets = tgts, symmetric_normalization = symm, batch_size = PyInt n, name = nm,
             shuffle = shuf, seed = sd\<rparr>)"
proof (intro conjI impI)
  assume a: "bs = PyInt 0 \<or> bs = PyInt (- 1) \<or> \<not> isinstance_int bs"
  then have nb: "\<not> batch_size_ok bs"
    by (auto simp: batch_size_ok_def)
  show "type_classified (snd (PaddedGraphGenerator_flow self ilocs tgts symm bs nm shuf sd)) \<or>
      value_classified (snd (PaddedGraphGenerator_flow self ilocs tgts symm bs nm shuf sd))"
  proof (cases "targets_ok tgts ilocs")
    case True
    then show ?thesis
      by (simp add: PaddedGraphGenerator_flow_batch [OF True nb])
  next
    case False
    then show ?thesis
      by (cases tgts) (simp_all add: PaddedGraphGenerator_flow_targets)
  qed
next
  assume a: "targets_ok tgts ilocs"
  show "snd (PaddedGraphGenerator_flow self ilocs tgts symm (PyInt 0) nm shuf sd) =
      Inl (ValueError msg_padded_batch_value)"
    using PaddedGraphGenerator_flow_batch [OF a, of "PyInt 0"] by (simp add: batch_size_ok_def)
  show "snd (PaddedGraphGenerator_flow self ilocs tgts symm (PyInt (- 1)) nm shuf sd) =
      Inl (ValueError msg_padded_batch_value)"
    using PaddedGraphGenerator_flow_batch [OF a, of "PyInt (- 1)"]
    by (simp add: batch_size_ok_def)
next
  assume a: "targets_ok tgts ilocs \<and> \<not> isinstance_int b"
  then show "snd (PaddedGraphGenerator_flow self ilocs tgts symm b nm shuf sd) =
      Inl (TypeError msg_padded_batch_type)"
    using PaddedGraphGenerator_flow_batch [of tgts ilocs b] by (simp add: batch_size_ok_def)
next
  assume a: "targets_ok tgts ilocs \<and>
    list_all (valid_iloc (PaddedGraphGenerator.graphs self)) ilocs \<and> 1 \<le> n"
  then have "batch_size_ok (PyInt n)"
    by (simp add: batch_size_ok_def)
  with a show "snd (PaddedGraphGenerator_flow self ilocs tgts symm (PyInt n) nm shuf sd) =
      Inr \<lparr>PaddedGraphSequence.graphs = selected (PaddedGraphGenerator.graphs self) ilocs,
           targets = tgts, symmetric_normalization = symm, batch_size = PyInt n, name = nm,
           shuffle = shuf, seed = sd\<rparr>"
    by (simp add: PaddedGraphGenerator_flow_ok select_graphs_valid)
qed

text \<open>
  C5 on the example generator, with the index list \<^verbatim>\<open>[0, 1]\<close>, the targets
  \<^verbatim>\<open>[[1], [0]]\<close> and the batch sizes 0, -1, a \<^verbatim>\<open>float\<close> and 1.
\<close>

theorem C5_padded_batch_size_witness:
  "targets_ok (RealIterable [[1], [0 :: int]]) [0, 1] \<and>
   \<not> isinstance_int (PyOther ''float'') \<and>
   list_all (valid_iloc (PaddedGraphGenerator.graphs example_padded)) [0, 1] \<and>
   (1 :: int) \<le> 1 \<and>
   snd (PaddedGraphGenerator_flow example_padded [0, 1]
     (RealIterable [[1], [0 :: int]]) True (PyInt 0) None False None) =
     Inl (ValueError msg_padded_batch_value) \<and>
   snd (PaddedGraphGenerator_flow example_padded [0, 1]
     (RealIterable [[1], [0 :: int]]) True (PyInt (- 1)) None False None) =
     Inl (ValueError msg_padded_batch_value) \<and>
   snd (PaddedGraphGenerator_flow example_padded [0, 1]
     (RealIterable [[1], [0 :: int]]) True (PyOther ''float'') None False None) =
     Inl (TypeError msg_padded_batch_type) \<and>
   snd (PaddedGraphGenerator_flow example_padded [0, 1]
     (RealIterable [[1], [0 :: int]]) True (PyInt 1) None False None) =
     Inr \<lparr>PaddedGraphSequence.graphs =
            [Graph (single_type_graph ''a'' 4), Graph (single_type_graph ''b'' 4)],
          targets = RealIterable [[1], [0]], symmetric_normalization = True,
          batch_size = PyInt 1, name = None, shuffle = False, seed = None\<rparr>"
proof -
  have 1: "targets_ok (RealIterable [[1], [0 :: int]]) [0, 1]"
    by (simp add: targets_ok_def)
  have 2: "\<not> isinstance_int (PyOther ''float'')"
    by simp
  have 3: "list_all (valid_iloc (PaddedGraphGenerator.graphs example_padded)) [0, 1]"
    by (simp add: example_padded_def example_graphs_def valid_iloc_def)
  have 4: "(1 :: int) \<le> 1"
    by simp
  have 5: "selected (PaddedGraphGenerator.graphs example_padded) [0, 1] =
      [Graph (single_type_graph ''a'' 4), Graph (single_type_graph ''b'' 4)]"
    by (simp add: selected_def example_padded_def example_graphs_def iloc_pos_def)
  from C5_padded_batch_size [of "PyInt 0" example_padded "[0, 1]"
      "RealIterable [[1], [0 :: int]]" True None False None "PyOther ''float''" 1]
    1 2 3 4 5
  show ?thesis by simp
qed

text \<open>
  C6. In both \<^verbatim>\<open>flow\<close> methods: targets that are not \<^verbatim>\<open>None\<close> and not a real iterable
  give \<^verbatim>\<open>TypeError\<close>; targets that are an iterable of a length other than that of the
  index list give \<^verbatim>\<open>ValueError\<close>; with the targets \<^verbatim>\<open>None\<close> both checks are skipped, and
  the call raises neither of the two errors about targets.
\<close>

theorem C6_target_checks:
  "snd (GraphGenerator_flow self ilocs (NotRealIterable t :: 't py_targets) bs nm) =
     Inl (TypeError msg_targets_type) \<and>
   snd (PaddedGraphGenerator_flow pself ilocs (NotRealIterable t :: 't py_targets)
          symm bs nm shuf sd) =
     Inl (TypeError msg_padded_targets_type) \<and>
   (length (rows :: 't list) \<noteq> length ilocs \<longrightarrow>
      snd (GraphGenerator_flow self ilocs (RealIterable rows) bs nm) =
        Inl (ValueError msg_targets_length) \<and>
      snd (PaddedGraphGenerator_flow pself ilocs (RealIterable rows) symm bs nm shuf sd) =
        Inl (ValueError msg_padded_targets_length)) \<and>
   snd (GraphGenerator_flow self ilocs (PyNone :: 't py_targets) bs nm) \<noteq>
     Inl (TypeError msg_targets_type) \<and>
   snd (GraphGenerator_flow self ilocs (PyNone :: 't py_targets) bs nm) \<noteq>
     Inl (ValueError msg_targets_length) \<and>
   snd (PaddedGraphGenerator_flow pself ilocs (PyNone :: 't py_targets) symm bs nm shuf sd) \<noteq>
     Inl (TypeError msg_padded_targets_type) \<and>
   snd (PaddedGraphGenerator_flow pself ilocs (PyNone :: 't py_targets) symm bs nm shuf sd) \<noteq>
     Inl (ValueError msg_padded_targets_length)"
proof -
  have ok: "targets_ok (PyNone :: 't py_targets) ilocs"
    by (simp add: targets_ok_def)
  have g: "snd (GraphGenerator_flow self ilocs (PyNone :: 't py_targets) bs nm) = Inl e \<Longrightarrow>
      e = IndexError" for e
    by (auto simp: GraphGenerator_flow_ok [OF ok] split: sum.splits
        dest: select_graphs_error)
  have p: "snd (PaddedGraphGenerator_flow pself ilocs (PyNone :: 't py_targets)
      symm bs nm shuf sd) = Inl e \<Longrightarrow>
      e = IndexError \<or> e = TypeError msg_padded_batch_type \<or>
      e = ValueError msg_padded_batch_value" for e
  proof (cases "batch_size_ok bs")
    case True
    assume "snd (PaddedGraphGenerator_flow pself ilocs (PyNone :: 't py_targets)
      symm bs nm shuf sd) = Inl e"
    then show ?thesis
      by (auto simp: PaddedGraphGenerator_flow_ok [OF ok True] split: sum.splits
          dest: select_graphs_error)
  next
    case False
    assume "snd (PaddedGraphGenerator_flow pself ilocs (PyNone :: 't py_targets)
      symm bs nm shuf sd) = Inl e"
    then show ?thesis
      by (auto simp: PaddedGraphGenerator_flow_batch [OF ok False] split: if_splits)
  qed
  show ?thesis
  proof (intro conjI impI)
    show "snd (GraphGenerator_flow self ilocs (NotRealIterable t :: 't py_targets) bs nm) =
        Inl (TypeError msg_targets_type)"
      by (simp add: GraphGenerator_flow_def)
    show "snd (PaddedGraphGenerator_flow pself ilocs (NotRealIterable t :: 't py_targets)
        symm bs nm shuf sd) = Inl (TypeError msg_padded_targets_type)"
      by (simp add: PaddedGraphGenerator_flow_def)
    show "snd (GraphGenerator_flow self ilocs (PyNone :: 't py_targets) bs nm) \<noteq>
        Inl (TypeError msg_targets_type)"
      using g by blast
    show "snd (GraphGenerator_flow self ilocs (PyNone :: 't py_targets) bs nm) \<noteq>
        Inl (ValueError msg_targets_length)"
      using g by blast
    show "snd (PaddedGraphGenerator_flow pself ilocs (PyNone :: 't py_targets)
        symm bs nm shuf sd) \<noteq> Inl (TypeError msg_padded_targets_type)"
    proof
      assume "snd (PaddedGraphGenerator_flow pself ilocs (PyNone :: 't py_targets)
        symm bs nm shuf sd) = Inl (TypeError msg_padded_targets_type)"
      from p [OF this] show False by simp
    qed
    show "snd (PaddedGraphGenerator_flow pself ilocs (PyNone :: 't py_targets)
        symm bs nm shuf sd) \<noteq> Inl (ValueError msg_padded_targets_length)"
    proof
      assume "snd (PaddedGraphGenerator_flow pself ilocs (PyNone :: 't py_targets)
        symm bs nm shuf sd) = Inl (ValueError msg_padded_targets_length)"
      from p [OF this] show False by simp
    qed
  next
    assume "length rows \<noteq> length ilocs"
    then show "snd (GraphGenerator_flow self ilocs (RealIterable rows) bs nm) =
        Inl (ValueError msg_targets_length)"
      and "snd (PaddedGraphGenerator_flow pself ilocs (RealIterable rows) symm bs nm shuf sd) =
        Inl (ValueError msg_padded_targets_length)"
      by (simp_all add: GraphGenerator_flow_def PaddedGraphGenerator_flow_def)
  qed
qed

text \<open>
  C6 on the example generators, with the index list \<^verbatim>\<open>[0, 1]\<close> and the targets
  \<^verbatim>\<open>[[1]]\<close>, of length 1.
\<close>

theorem C6_target_checks_witness:
  "length [[1 :: int]] \<noteq> length [0 :: int, 1] \<and>
   snd (GraphGenerator_flow example_unpadded [0, 1] (RealIterable [[1 :: int]]) (PyInt 1) None) =
     Inl (ValueError msg_targets_length) \<and>
   snd (PaddedGraphGenerator_flow example_padded [0, 1] (RealIterable [[1 :: int]]) True
          (PyInt 1) None False None) =
     Inl (ValueError msg_padded_targets_length)"
proof -
  have 1: "length [[1 :: int]] \<noteq> length [0 :: int, 1]"
    by simp
  from C6_target_checks [of example_unpadded "[0, 1]" _ "PyInt 1" None example_padded
      True False None "[[1 :: int]]"] 1
  show ?thesis by blast
qed

text \<open>
  C7, as amended. For every index list whose entries are valid positions, targets that are
  \<^verbatim>\<open>None\<close> or an iterable as long as the index list, and a batch size that is a strictly
  positive integer, \<^verbatim>\<open>flow\<close> of either generator returns a sequence object bound to the
  selected graphs. These are as many as the entries of the index list, and the \<open>k\<close>-th of
  them is \<^verbatim>\<open>self.graphs[graph_ilocs[k]]\<close>: the order of the index list is kept and an
  index may occur more than once.
\<close>

theorem C7_selection:
  assumes "targets_ok tgts ilocs" and "batch_size_ok bs"
  shows "(list_all (valid_iloc (GraphGenerator.graphs self)) ilocs \<longrightarrow>
            snd (GraphGenerator_flow self ilocs tgts bs nm) =
              Inr \<lparr>GraphSequence.graphs = selected (GraphGenerator.graphs self) ilocs,
                   targets = tgts, batch_size = bs, name = nm\<rparr>) \<and>
         (list_all (valid_iloc (PaddedGraphGenerator.graphs pself)) ilocs \<longrightarrow>
            snd (PaddedGraphGenerator_flow pself ilocs tgts symm bs nm shuf sd) =
              Inr \<lparr>PaddedGraphSequence.graphs = selected (PaddedGraphGenerator.graphs pself) ilocs,
                   targets = tgts, symmetric_normalization = symm, batch_size = bs,
                   name = nm, shuffle = shuf, seed = sd\<rparr>) \<and>
         length (selected gs ilocs) = length ilocs \<and>
         (list_all (valid_iloc gs) ilocs \<and> k < length ilocs \<longrightarrow>
            py_getitem gs (ilocs ! k) = Inr (selected gs ilocs ! k))"
proof (intro conjI impI)
  assume "list_all (valid_iloc (GraphGenerator.graphs self)) ilocs"
  then show "snd (GraphGenerator_flow self ilocs tgts bs nm) =
      Inr \<lparr>GraphSequence.graphs = selected (GraphGenerator.graphs self) ilocs,
           targets = tgts, batch_size = bs, name = nm\<rparr>"
    by (simp add: GraphGenerator_flow_ok [OF assms(1)] select_graphs_valid)
next
  assume "list_all (valid_iloc (PaddedGraphGenerator.graphs pself)) ilocs"
  then show "snd (PaddedGraphGenerator_flow pself ilocs tgts symm bs nm shuf sd) =
      Inr \<lparr>PaddedGraphSequence.graphs = selected (PaddedGraphGenerator.graphs pself) ilocs,
           targets = tgts, symmetric_normalization = symm, batch_size = bs,
           name = nm, shuffle = shuf, seed = sd\<rparr>"
    by (simp add: PaddedGraphGenerator_flow_ok [OF assms] select_graphs_valid)
next
  show "length (selected gs ilocs) = length ilocs"
    by (simp add: selected_def)
next
  assume "list_all (valid_iloc gs) ilocs \<and> k < length ilocs"
  then show "py_getitem gs (ilocs ! k) = Inr (selected gs ilocs ! k)"
    by (simp add: selected_nth)
qed

text \<open>
  The amended C7 on the example generators, with the index list \<^verbatim>\<open>[2, 0, 2]\<close>, where the
  index 2 occurs twice, three targets and the batch size 2.
\<close>

theorem C7_selection_witness:
  "targets_ok (RealIterable [[1], [0], [1 :: int]]) [2, 0, 2] \<and>
   list_all (valid_iloc example_graphs) [2, 0, 2] \<and>
   batch_size_ok (PyInt 2) \<and>
   (1 :: nat) < length [2, 0, 2 :: int] \<and>
   snd (GraphGenerator_flow example_unpadded [2, 0, 2] (RealIterable [[1], [0], [1 :: int]])
          (PyInt 2) None) =
     Inr \<lparr>GraphSequence.graphs =
            [Graph (single_type_graph ''c'' 4), Graph (single_type_graph ''a'' 4),
             Graph (single_type_graph ''c'' 4)],
          targets = RealIterable [[1], [0], [1]], batch_size = PyInt 2, name = None\<rparr> \<and>
   snd (PaddedGraphGenerator_flow example_padded [2, 0, 2]
          (RealIterable [[1], [0], [1 :: int]]) True (PyInt 2) None False None) =
     Inr \<lparr>PaddedGraphSequence.graphs =
            [Graph (single_type_graph ''c'' 4), Graph (single_type_graph ''a'' 4),
             Graph (single_type_graph ''c'' 4)],
          targets = RealIterable [[1], [0], [1]], symmetric_normalization = True,
          batch_size = PyInt 2, name = None, shuffle = False, seed = None\<rparr> \<and>
   py_getitem example_graphs ([2, 0, 2] ! 1) = Inr (Graph (single_type_graph ''a'' 4))"
proof -
  have 1: "targets_ok (RealIterable [[1], [0], [1 :: int]]) [2, 0, 2]"
    by (simp add: targets_ok_def)
  have 2: "list_all (valid_iloc example_graphs) [2, 0, 2]"
    by (simp add: example_graphs_def valid_iloc_def)
  have 3: "batch_size_ok (PyInt 2)"
    by (simp add: batch_size_ok_def)
  have 4: "(1 :: nat) < length [2, 0, 2 :: int]"
    by simp
  have 5: "selected example_graphs [2, 0, 2] =
      [Graph (single_type_graph ''c'' 4), Graph (single_type_graph ''a'' 4),
       Graph (single_type_graph ''c'' 4)]"
    by (simp add: selected_def example_graphs_def iloc_pos_def)
  have 6: "GraphGenerator.graphs example_unpadded = example_graphs"
    and 7: "PaddedGraphGenerator.graphs example_padded = example_graphs"
    by (simp_all add: example_unpadded_def example_padded_def)
  from C7_selection [OF 1 3, of example_unpadded None example_padded
      True False None example_graphs 1] 1 2 3 4 5 6 7
  show ?thesis by simp
qed

text \<open>
  C7 as stated fails for the padded generator. With the index list \<^verbatim>\<open>[0]\<close>, a valid
  position, no targets and the batch size 0, \<^verbatim>\<open>PaddedGraphGenerator.flow\<close> raises
  \<^verbatim>\<open>ValueError\<close> and returns no sequence object.
\<close>

theorem C7_counterexample:
  "PaddedGraphGenerator_init example_graphs None = Inr example_padded \<and>
   list_all (valid_iloc (PaddedGraphGenerator.graphs example_padded)) [0] \<and>
   targets_ok (PyNone :: int list py_targets) [0] \<and>
   snd (PaddedGraphGenerator_flow example_padded [0] (PyNone :: int list py_targets) True
          (PyInt 0) None False None) =
     Inl (ValueError msg_padded_batch_value)"
  by (simp add: example_padded_constructed)
     (simp add: example_padded_def example_graphs_def valid_iloc_def targets_ok_def
       PaddedGraphGenerator_flow_def)

text \<open>
  C8. The recorded configuration of an instance of either generator, that is
  \<^verbatim>\<open>graphs\<close>, \<^verbatim>\<open>node_features_size\<close> and \<^verbatim>\<open>name\<close>, is the same after a call of
  \<^verbatim>\<open>flow\<close> as before it, for all arguments, whether the call returns a sequence object
  or raises; so it is after any run of calls.
\<close>

theorem C8_flow_leaves_instance:
  "fst (GraphGenerator_flow self ilocs tgts bs nm) = self \<and>
   fst (PaddedGraphGenerator_flow pself ilocs' tgts' symm bs' nm' shuf sd) = pself \<and>
   GraphGenerator_flows self calls = self \<and>
   PaddedGraphGenerator_flows pself calls' = pself"
proof (intro conjI)
  show "fst (GraphGenerator_flow self ilocs tgts bs nm) = self"
    by (rule GraphGenerator_flow_fst)
  show "fst (PaddedGraphGenerator_flow pself ilocs' tgts' symm bs' nm' shuf sd) = pself"
    by (rule PaddedGraphGenerator_flow_fst)
  show "GraphGenerator_flows self calls = self"
    by (rule GraphGenerator_flows_id)
  show "PaddedGraphGenerator_flows pself calls' = pself"
    by (rule PaddedGraphGenerator_flows_id)
qed

text \<open>
  C10. Neither \<^verbatim>\<open>flow\<close> checks the bounds of \<^verbatim>\<open>graph_ilocs\<close>. For an index list with a
  position outside the range of the stored list of graphs, \<^verbatim>\<open>GraphGenerator.flow\<close> raises
  \<^verbatim>\<open>IndexError\<close> exactly when the targets pass their checks, and
  \<^verbatim>\<open>PaddedGraphGenerator.flow\<close> exactly when the targets and the batch size pass theirs:
  the error comes from the slicing step, after the checks. A position is outside the range
  when it is not one of \<open>-len .. len-1\<close>, as Python indexes a list.
\<close>

theorem C10_index_out_of_range:
  "(list_ex (\<lambda>i. \<not> valid_iloc (GraphGenerator.graphs self) i) ilocs \<longrightarrow>
      (snd (GraphGenerator_flow self ilocs tgts bs nm) = Inl IndexError) =
        targets_ok tgts ilocs) \<and>
   (list_ex (\<lambda>i. \<not> valid_iloc (PaddedGraphGenerator.graphs pself) i) ilocs' \<longrightarrow>
      (snd (PaddedGraphGenerator_flow pself ilocs' tgts' symm bs' nm' shuf sd) = Inl IndexError) =
        (targets_ok tgts' ilocs' \<and> batch_size_ok bs'))"
proof (intro conjI impI)
  assume "list_ex (\<lambda>i. \<not> valid_iloc (GraphGenerator.graphs self) i) ilocs"
  then have bad: "\<not> list_all (valid_iloc (GraphGenerator.graphs self)) ilocs"
    by (simp add: list_all_iff list_ex_iff)
  show "(snd (GraphGenerator_flow self ilocs tgts bs nm) = Inl IndexError) =
      targets_ok tgts ilocs"
  proof (cases "targets_ok tgts ilocs")
    case True
    then show ?thesis
      by (simp add: GraphGenerator_flow_ok select_graphs_invalid [OF bad])
  next
    case False
    then show ?thesis
      by (cases tgts) (simp_all add: GraphGenerator_flow_targets)
  qed
next
  assume "list_ex (\<lambda>i. \<not> valid_iloc (PaddedGraphGenerator.graphs pself) i) ilocs'"
  then have bad: "\<not> list_all (valid_iloc (PaddedGraphGenerator.graphs pself)) ilocs'"
    by (simp add: list_all_iff list_ex_iff)
  show "(snd (PaddedGraphGenerator_flow pself ilocs' tgts' symm bs' nm' shuf sd) =
      Inl IndexError) = (targets_ok tgts' ilocs' \<and> batch_size_ok bs')"
  proof (cases "targets_ok tgts' ilocs'")
    case False
    then show ?thesis
      by (cases tgts') (simp_all add: PaddedGraphGenerator_flow_targets)
  next
    case True
    show ?thesis
    proof (cases "batch_size_ok bs'")
      case ok: True
      then show ?thesis
        by (simp add: PaddedGraphGenerator_flow_ok [OF True ok] select_graphs_invalid [OF bad]
            True)
    next
      case no: False
      then show ?thesis
        by (simp add: PaddedGraphGenerator_flow_batch [OF True no])
    qed
  qed
qed

text \<open>
  C10 on the example generators, which hold three graphs: the index lists \<^verbatim>\<open>[0, 3]\<close> and
  \<^verbatim>\<open>[-1, -4]\<close>, with two targets and the batch size 1.
\<close>

theorem C10_index_out_of_range_witness:
  "list_ex (\<lambda>i. \<not> valid_iloc (GraphGenerator.graphs example_unpadded) i) [0, 3] \<and>
   list_ex (\<lambda>i. \<not> valid_iloc (PaddedGraphGenerator.graphs example_padded) i) [- 1, - 4] \<and>
   targets_ok (RealIterable [[1], [0 :: int]]) [0, 3] \<and>
   targets_ok (RealIterable [[1], [0 :: int]]) [- 1, - 4] \<and>
   batch_size_ok (PyInt 1) \<and>
   snd (GraphGenerator_flow example_unpadded [0, 3] (RealIterable [[1], [0 :: int]])
          (PyInt 1) None) = Inl IndexError \<and>
   snd (PaddedGraphGenerator_flow example_padded [- 1, - 4] (RealIterable [[1], [0 :: int]])
          True (PyInt 1) None False None) = Inl IndexError"
proof -
  have 1: "list_ex (\<lambda>i. \<not> valid_iloc (GraphGenerator.graphs example_unpadded) i) [0, 3]"
    by (simp add: example_unpadded_def example_graphs_def valid_iloc_def)
  have 2: "list_ex (\<lambda>i. \<not> valid_iloc (PaddedGraphGenerator.graphs example_padded) i)
      [- 1, - 4]"
    by (simp add: example_padded_def example_graphs_def valid_iloc_def)
  have 3: "targets_ok (RealIterable [[1], [0 :: int]]) [0, 3]"
    and 4: "targets_ok (RealIterable [[1], [0 :: int]]) [- 1, - 4]"
    by (simp_all add: targets_ok_def)
  have 5: "batch_size_ok (PyInt 1)"
    by (simp add: batch_size_ok_def)
  from C10_index_out_of_range [of example_unpadded "[0, 3]" "RealIterable [[1], [0 :: int]]"
      "PyInt 1" None example_padded "[- 1, - 4]" "RealIterable [[1], [0 :: int]]" True
      "PyInt 1" None False None] 1 2 3 4 5
  show ?thesis by blast
qed

end
